theory Spec2Isabelle
  imports Complex_Main
begin

section \<open>Data model of GERAR\_POLIGONO.py\<close>

text \<open>
  Python exceptions are identified by the name of their class. A function of the source
  that can raise returns \<open>error + 'a\<close>, with \<open>Inl\<close> holding the exception.
\<close>

type_synonym error = string

text \<open>
  Python floats are idealised as real numbers: addition, subtraction, multiplication and
  division are exact, and \<open>math.cos\<close> and \<open>math.radians\<close> are the mathematical
  functions, except where a computation of the library is taken as a parameter. A
  coordinate is the pair the source builds, \<open>(lat, lon)\<close>.
\<close>

type_synonym coord = "real \<times> real"

text \<open>
  The geometry objects of shapely that the source handles. The source tells them apart
  by \<open>geom_type\<close> only; of a polygon it reads \<open>exterior.coords\<close>, of a multi-polygon
  \<open>geoms\<close>. Every other geometry type of shapely is kept by its kind.
\<close>

datatype other_kind =
  Point | LineString | LinearRing | MultiPoint | MultiLineString | GeometryCollection

datatype geometry =
  Polygon (exterior_coords: "coord list") (interiors: "coord list list")
| MultiPolygon (geoms: "geometry list")
| OtherGeometry other_kind

fun other_type :: "other_kind \<Rightarrow> string" where
  "other_type Point = ''Point''"
| "other_type LineString = ''LineString''"
| "other_type LinearRing = ''LinearRing''"
| "other_type MultiPoint = ''MultiPoint''"
| "other_type MultiLineString = ''MultiLineString''"
| "other_type GeometryCollection = ''GeometryCollection''"

fun geom_type :: "geometry \<Rightarrow> string" where
  "geom_type (Polygon ext ints) = ''Polygon''"
| "geom_type (MultiPolygon gs) = ''MultiPolygon''"
| "geom_type (OtherGeometry k) = other_type k"

section \<open>create\_square\_polygon\<close>

text \<open>Python's \<open>/\<close> on floats raises \<open>ZeroDivisionError\<close> when the divisor is zero.\<close>

definition truediv :: "real \<Rightarrow> real \<Rightarrow> error + real" where
  "truediv a b = (if b = 0 then Inl ''ZeroDivisionError'' else Inr (a / b))"

definition radians :: "real \<Rightarrow> real" where
  "radians d = d * pi / 180"

text \<open>
  \<open>Polygon(vertices)\<close> of shapely keeps the five vertices given (the ring is already
  closed) and has no holes.
\<close>

definition create_square_polygon :: "real \<Rightarrow> real \<Rightarrow> real \<Rightarrow> error + geometry" where
  "create_square_polygon lat lon radius_meters =
     (case truediv radius_meters 111000 of
        Inl e \<Rightarrow> Inl e
      | Inr lat_offset \<Rightarrow>
          (case truediv radius_meters (111000 * cos (radians lat)) of
             Inl e \<Rightarrow> Inl e
           | Inr lon_offset \<Rightarrow>
               Inr (Polygon
                 [(lat - lat_offset, lon - lon_offset),
                  (lat - lat_offset, lon + lon_offset),
                  (lat + lat_offset, lon + lon_offset),
                  (lat + lat_offset, lon - lon_offset),
                  (lat - lat_offset, lon - lon_offset)] [])))"

text \<open>
  In \<open>create_square_polygon\<close> the cosine is the mathematical one. This is what the
  source computes, up to rounding, for latitudes strictly between -90 and 90. At the
  poles it is not: \<open>math.radians(90.0)\<close> is the double next to \<open>pi / 2\<close>, and
  \<open>math.cos\<close> of it is about \<open>6.1e-17\<close>, not zero. For statements that reach the
  poles the same function is given with the library computation
  \<open>math.cos(math.radians(lat))\<close> as the parameter \<open>cos_radians\<close>.
\<close>

definition create_square_polygon_with ::
  "(real \<Rightarrow> real) \<Rightarrow> real \<Rightarrow> real \<Rightarrow> real \<Rightarrow> error + geometry" where
  "create_square_polygon_with cos_radians lat lon radius_meters =
     (case truediv radius_meters 111000 of
        Inl e \<Rightarrow> Inl e
      | Inr lat_offset \<Rightarrow>
          (case truediv radius_meters (111000 * cos_radians lat) of
             Inl e \<Rightarrow> Inl e
           | Inr lon_offset \<Rightarrow>
               Inr (Polygon
                 [(lat - lat_offset, lon - lon_offset),
                  (lat - lat_offset, lon + lon_offset),
                  (lat + lat_offset, lon + lon_offset),
                  (lat + lat_offset, lon - lon_offset),
                  (lat - lat_offset, lon - lon_offset)] [])))"

section \<open>merge\_intersecting\_polygons\<close>

text \<open>
  \<open>unary_union\<close> belongs to shapely, not to this program: it is a parameter, a function
  from the list of geometries to the union or to the exception it raises. The result of
  \<open>merge_intersecting_polygons\<close> is the list the source returns together with the
  exceptions it has shown with \<open>st.error\<close>.
\<close>

definition merge_intersecting_polygons ::
  "(geometry list \<Rightarrow> error + geometry) \<Rightarrow> geometry list \<Rightarrow> geometry list \<times> error list" where
  "merge_intersecting_polygons unary_union polygons =
     (if polygons = [] then ([], [])
      else if length polygons = 1 then (polygons, [])
      else (case unary_union polygons of
              Inl e \<Rightarrow> (polygons, [e])
            | Inr merged \<Rightarrow>
                if geom_type merged = ''MultiPolygon'' then (geoms merged, [])
                else if geom_type merged = ''Polygon'' then ([merged], [])
                else ([], [])))"

text \<open>
  Modelled from the spec: \<open>unary_union\<close> of shapely, which is not part of the
  repository. The specification (section 4.3) describes the union step: it fails with
  \<open>GeometryError\<close> on degenerate input; otherwise the union is decomposed into its
  maximal connected components, each returned as one polygon, where two input polygons
  belong to the same component iff they intersect, directly or through a chain of
  pairwise intersections. The geometric tests and the fusing of a component are
  parameters: \<open>degenerate\<close> tells the inputs the union cannot process,
  \<open>intersects\<close> tells whether two polygons meet, and \<open>fuse\<close> gives the exterior
  ring and the holes of the polygon that covers a component.
\<close>

definition touches :: "(geometry \<Rightarrow> geometry \<Rightarrow> bool) \<Rightarrow> geometry \<Rightarrow> geometry list \<Rightarrow> bool" where
  "touches intersects p component = list_ex (intersects p) component"

text \<open>
  Modelled from the spec: the maximal connected components of the input of
  \<open>unary_union\<close>. A polygon joins every component it touches, and these become one.
\<close>

fun components :: "(geometry \<Rightarrow> geometry \<Rightarrow> bool) \<Rightarrow> geometry list \<Rightarrow> geometry list list" where
  "components intersects [] = []"
| "components intersects (p # ps) =
     (p # concat (filter (touches intersects p) (components intersects ps)))
     # filter (\<lambda>c. \<not> touches intersects p c) (components intersects ps)"

text \<open>
  Modelled from the spec: the result of \<open>unary_union\<close>, a single polygon when
  there is one component and a multi-polygon of one polygon for each component
  otherwise, or \<open>GeometryError\<close> on degenerate input.
\<close>

definition unary_union_spec ::
  "(geometry \<Rightarrow> bool) \<Rightarrow> (geometry \<Rightarrow> geometry \<Rightarrow> bool)
     \<Rightarrow> (geometry list \<Rightarrow> coord list \<times> coord list list)
     \<Rightarrow> geometry list \<Rightarrow> error + geometry" where
  "unary_union_spec degenerate intersects fuse polygons =
     (if list_ex degenerate polygons then Inl ''GeometryError''
      else (case components intersects polygons of
              [c] \<Rightarrow> Inr (Polygon (fst (fuse c)) (snd (fuse c)))
            | cs \<Rightarrow> Inr (MultiPolygon (map (\<lambda>c. Polygon (fst (fuse c)) (snd (fuse c))) cs))))"

text \<open>
  Three squares for an example: the first two overlap, the third lies apart from both.
  \<open>sample_intersects\<close> and \<open>sample_fuse\<close> give, on these squares, the facts of
  the geometry: which of them meet, and the ring around the first two.
\<close>

definition square_a :: geometry where
  "square_a = Polygon [(0, 0), (0, 2), (2, 2), (2, 0), (0, 0)] []"

definition square_b :: geometry where
  "square_b = Polygon [(1, 0), (1, 2), (3, 2), (3, 0), (1, 0)] []"

definition square_c :: geometry where
  "square_c = Polygon [(8, 8), (8, 9), (9, 9), (9, 8), (8, 8)] []"

definition sample_intersects :: "geometry \<Rightarrow> geometry \<Rightarrow> bool" where
  "sample_intersects p q =
     (p = q \<or> (p = square_a \<and> q = square_b) \<or> (p = square_b \<and> q = square_a))"

definition sample_fuse :: "geometry list \<Rightarrow> coord list \<times> coord list list" where
  "sample_fuse c =
     (if c = [square_a, square_b] then ([(0, 0), (0, 2), (3, 2), (3, 0), (0, 0)], [])
      else (exterior_coords (hd c), interiors (hd c)))"

section \<open>create\_output\_kml\<close>

text \<open>
  A placemark is the dictionary that \<open>parse_kml\<close> builds. The text of an XML element
  may be absent (\<open>None\<close> in Python), so the name and the description are optional
  strings. Strings are byte strings in UTF-8. The keys of the dictionary are the field
  names after the prefix. The type \<open>'n\<close> is that of the values of \<open>float\<close>; the
  writer reads them as real numbers.
\<close>

record 'n placemark =
  pm_name :: "string option"
  pm_description :: "string option"
  pm_lat :: 'n
  pm_lon :: 'n
  pm_coords :: string

text \<open>
  The document of simplekml is the list of its features in the order of their creation.
  A colour is kept as the call of \<open>simplekml.Color\<close> that made it.
\<close>

datatype kml_color =
  Color_blue
| Color_rgb int int int
| Color_changealphaint int kml_color

datatype feature =
  KmlPoint (feature_name: string) (point_coords: "(real \<times> real) list")
    (iconstyle_color: kml_color) (iconstyle_scale: real)
| KmlPolygon (feature_name: string) (linestyle_color: kml_color) (linestyle_width: int)
    (polystyle_color: kml_color) (outerboundaryis: "(real \<times> real) list")

text \<open>\<open>str\<close> of a non-negative integer: its decimal digits.\<close>

function str_nat :: "nat \<Rightarrow> string" where
  "str_nat n =
     (if n < 10 then [''0123456789'' ! n]
      else str_nat (n div 10) @ [''0123456789'' ! (n mod 10)])"
  by pat_completeness auto
termination
  by (relation "measure (\<lambda>n. n)") auto

declare str_nat.simps [simp del]

text \<open>What an f-string prints for an optional string.\<close>

fun format_str :: "string option \<Rightarrow> string" where
  "format_str None = ''None''"
| "format_str (Some s) = s"

text \<open>\<open>int\<close> of a float truncates towards zero.\<close>

definition int_of_float :: "real \<Rightarrow> int" where
  "int_of_float x = (if 0 \<le> x then \<lfloor>x\<rfloor> else \<lceil>x\<rceil>)"

text \<open>The first loop: one marker for each placemark.\<close>

definition original_points :: "real placemark list \<Rightarrow> feature list" where
  "original_points placemarks =
     map (\<lambda>pm. KmlPoint (''Original: '' @ format_str (pm_name pm)) [(pm_lon pm, pm_lat pm)]
                  Color_blue 0.5) placemarks"

text \<open>
  The name of an area: the source's literal is the Portuguese word with a capital A
  with acute accent (U+00C1, the bytes C3 81), a space, and the index plus one.
\<close>

definition area_name :: "nat \<Rightarrow> string" where
  "area_name i = [CHR 0xC3, CHR 0x81] @ ''rea '' @ str_nat (i + 1)"

text \<open>
  The second loop, \<open>for i, poly in enumerate(polygons)\<close>. The built-in \<open>int(s, 16)\<close>
  is the parameter \<open>int_hex\<close>; where it raises, the loop stops with that exception.
\<close>

fun polygons_loop ::
  "(string \<Rightarrow> error + int) \<Rightarrow> string \<Rightarrow> real \<Rightarrow> nat \<Rightarrow> geometry list \<Rightarrow> feature list
     \<Rightarrow> error + feature list" where
  "polygons_loop int_hex color opacity i [] kml = Inr kml"
| "polygons_loop int_hex color opacity i (poly # rest) kml =
     (if geom_type poly = ''Polygon'' then
        (case int_hex (take 2 (drop 1 color)) of
           Inl e \<Rightarrow> Inl e
         | Inr r \<Rightarrow>
        (case int_hex (take 2 (drop 3 color)) of
           Inl e \<Rightarrow> Inl e
         | Inr g \<Rightarrow>
        (case int_hex (take 2 (drop 5 color)) of
           Inl e \<Rightarrow> Inl e
         | Inr b \<Rightarrow>
             polygons_loop int_hex color opacity (i + 1) rest
               (kml @ [KmlPolygon (area_name i) (Color_rgb r g b) 2
                         (Color_changealphaint (int_of_float (opacity * 255)) (Color_rgb r g b))
                         (map (\<lambda>(lat, lon). (lon, lat)) (exterior_coords poly))]))))
      else polygons_loop int_hex color opacity (i + 1) rest kml)"

definition create_output_kml ::
  "(string \<Rightarrow> error + int) \<Rightarrow> geometry list \<Rightarrow> real placemark list \<Rightarrow> real \<Rightarrow> string \<Rightarrow> real
     \<Rightarrow> error + feature list" where
  "create_output_kml int_hex polygons placemarks radius color opacity =
     polygons_loop int_hex color opacity 0 polygons (original_points placemarks)"

section \<open>parse\_kml\<close>

text \<open>
  An element of \<open>xml.etree.ElementTree\<close>: its tag (with the namespace in braces), its
  text, which is \<open>None\<close> when the element has none, and its children in document order.
\<close>

datatype element =
  Element (tag: string) (elem_text: "string option") (children: "element list")

text \<open>The tag that the prefix \<open>kml:\<close> of a path stands for.\<close>

definition kml_ns :: "string \<Rightarrow> string" where
  "kml_ns local = ''{http://www.opengis.net/kml/2.2}'' @ local"

text \<open>The elements below an element, in document order: what \<open>.//\<close> ranges over.\<close>

fun descendants :: "element \<Rightarrow> element list" where
  "descendants (Element t x cs) = concat (map (\<lambda>c. c # descendants c) cs)"

text \<open>\<open>root.findall('.//kml:Placemark', namespace)\<close>\<close>

definition findall_Placemark :: "element \<Rightarrow> element list" where
  "findall_Placemark doc_root =
     filter (\<lambda>e. tag e = kml_ns ''Placemark'') (descendants doc_root)"

text \<open>
  \<open>placemark.find('.//kml:Point/kml:coordinates', namespace)\<close>: the first
  \<open>coordinates\<close> child of a \<open>Point\<close> below the placemark, or \<open>None\<close>.
\<close>

definition find_Point_coordinates :: "element \<Rightarrow> element option" where
  "find_Point_coordinates placemark =
     (case concat (map (\<lambda>p. filter (\<lambda>c. tag c = kml_ns ''coordinates'') (children p))
                    (filter (\<lambda>e. tag e = kml_ns ''Point'') (descendants placemark))) of
        [] \<Rightarrow> None
      | c # cs \<Rightarrow> Some c)"

text \<open>\<open>elem.find('kml:name', namespace)\<close>: the first child with the tag, or \<open>None\<close>.\<close>

definition find_child :: "string \<Rightarrow> element \<Rightarrow> element option" where
  "find_child t elem = List.find (\<lambda>c. tag c = t) (children elem)"

text \<open>
  \<open>str.split(sep)\<close> for a separator of one character: at least one field. The comma
  is one byte and no part of a longer character of UTF-8, so splitting the bytes is
  splitting the characters.
\<close>

fun split :: "char \<Rightarrow> string \<Rightarrow> string list" where
  "split sep [] = [[]]"
| "split sep (c # cs) =
     (if c = sep then [] # split sep cs
      else (case split sep cs of [] \<Rightarrow> [[c]] | f # fs \<Rightarrow> (c # f) # fs))"

text \<open>
  The body of the loop over the placemarks: \<open>Inr None\<close> when the placemark adds
  nothing, \<open>Inr (Some pm)\<close> when it appends \<open>pm\<close>, \<open>Inl e\<close> when it raises \<open>e\<close>.
  Two built-ins are parameters: \<open>strip\<close> is \<open>str.strip\<close>, and \<open>py_float\<close> is
  \<open>float\<close>, with its value or the exception it raises; the values of \<open>float\<close> are of
  any type \<open>'n\<close>. Reading \<open>.strip\<close> of a text that is \<open>None\<close> raises
  \<open>AttributeError\<close>.
\<close>

definition parse_placemark ::
  "(string \<Rightarrow> string) \<Rightarrow> (string \<Rightarrow> error + 'n) \<Rightarrow> element \<Rightarrow> error + 'n placemark option" where
  "parse_placemark strip py_float placemark =
     (case find_Point_coordinates placemark of
        None \<Rightarrow> Inr None
      | Some point \<Rightarrow>
          (let name_elem = find_child (kml_ns ''name'') placemark;
               name = (case name_elem of Some e \<Rightarrow> elem_text e | None \<Rightarrow> Some ''Sem nome'');
               desc_elem = find_child (kml_ns ''description'') placemark;
               description = (case desc_elem of Some e \<Rightarrow> elem_text e | None \<Rightarrow> Some [])
           in (case elem_text point of
                 None \<Rightarrow> Inl ''AttributeError''
               | Some t \<Rightarrow>
                   (let coords_text = strip t;
                        coords = split CHR '','' coords_text
                    in if 2 \<le> length coords then
                         (case py_float (coords ! 0) of
                            Inl e \<Rightarrow> Inl e
                          | Inr lon \<Rightarrow>
                              (case py_float (coords ! 1) of
                                 Inl e \<Rightarrow> Inl e
                               | Inr lat \<Rightarrow>
                                   Inr (Some \<lparr>pm_name = name, pm_description = description,
                                              pm_lat = lat, pm_lon = lon,
                                              pm_coords = coords_text\<rparr>)))
                       else Inr None))))"

fun placemarks_loop ::
  "(string \<Rightarrow> string) \<Rightarrow> (string \<Rightarrow> error + 'n) \<Rightarrow> element list \<Rightarrow> 'n placemark list
     \<Rightarrow> error + 'n placemark list" where
  "placemarks_loop strip py_float [] placemarks = Inr placemarks"
| "placemarks_loop strip py_float (placemark # rest) placemarks =
     (case parse_placemark strip py_float placemark of
        Inl e \<Rightarrow> Inl e
      | Inr None \<Rightarrow> placemarks_loop strip py_float rest placemarks
      | Inr (Some pm) \<Rightarrow> placemarks_loop strip py_float rest (placemarks @ [pm]))"

text \<open>
  \<open>ET.parse\<close> is a parameter: it gives the root of the document, or the exception it
  raises on input that is not well-formed. The handler of the source catches every
  exception of the body, shows it and returns \<open>(None, None)\<close>: this is the result
  \<open>Inl e\<close>. Otherwise the result is the pair \<open>(placemarks, root)\<close>.
\<close>

definition parse_kml ::
  "('f \<Rightarrow> error + element) \<Rightarrow> (string \<Rightarrow> string) \<Rightarrow> (string \<Rightarrow> error + 'n) \<Rightarrow> 'f
     \<Rightarrow> error + 'n placemark list \<times> element" where
  "parse_kml ET_parse strip py_float file_content =
     (case ET_parse file_content of
        Inl e \<Rightarrow> Inl e
      | Inr doc_root \<Rightarrow>
          (case placemarks_loop strip py_float (findall_Placemark doc_root) [] of
             Inl e \<Rightarrow> Inl e
           | Inr placemarks \<Rightarrow> Inr (placemarks, doc_root)))"

subsection \<open>Notions used to state the properties of parse\_kml\<close>

text \<open>
  The coordinate text of a placemark is the stripped text of the element that
  \<open>find_Point_coordinates\<close> selects, when there is such an element and it has a text.
  A placemark has point fields when this text splits at the commas into two or more
  fields. A placemark is readable when the element selected, if any, has a text, and
  \<open>float\<close> accepts the first two fields wherever there are two or more.
\<close>

definition coords_text_of :: "(string \<Rightarrow> string) \<Rightarrow> element \<Rightarrow> string option" where
  "coords_text_of strip placemark =
     (case find_Point_coordinates placemark of
        None \<Rightarrow> None
      | Some point \<Rightarrow> map_option strip (elem_text point))"

definition has_point_fields :: "(string \<Rightarrow> string) \<Rightarrow> element \<Rightarrow> bool" where
  "has_point_fields strip placemark =
     (case coords_text_of strip placemark of
        None \<Rightarrow> False
      | Some ct \<Rightarrow> 2 \<le> length (split CHR '','' ct))"


subsection \<open>Sample documents\<close>

text \<open>
  Documents for the examples below, as the trees that \<open>ET.parse\<close> builds, under the
  root \<open>kml\<close> and a \<open>Document\<close>. None of their texts has white space at its ends, so
  \<open>str.strip\<close> leaves them as they are, and \<open>sample_float\<close> gives what \<open>float\<close> gives
  on the fields that occur in them.
\<close>

definition sample_float :: "string \<Rightarrow> error + real" where
  "sample_float s =
     (if s = ''10'' then Inr 10 else if s = ''20'' then Inr 20 else Inl ''ValueError'')"

definition in_document :: "element list \<Rightarrow> element" where
  "in_document placemarks =
     Element (kml_ns ''kml'') None [Element (kml_ns ''Document'') None placemarks]"

definition point_of :: "string option \<Rightarrow> element" where
  "point_of t = Element (kml_ns ''Point'') None [Element (kml_ns ''coordinates'') t []]"



definition doc_unnamed :: element where
  "doc_unnamed = in_document [Element (kml_ns ''Placemark'') None [point_of (Some ''10,20'')]]"

definition doc_named :: element where
  "doc_named = in_document
     [Element (kml_ns ''Placemark'') None [Element (kml_ns ''name'') (Some ''A'') []],
      Element (kml_ns ''Placemark'') None
        [Element (kml_ns ''name'') (Some ''B'') [],
         Element (kml_ns ''description'') (Some ''b'') [], point_of (Some ''20,10'')],
      Element (kml_ns ''Placemark'') None [point_of (Some ''10,10'')]]"

definition doc_not_numeric :: element where
  "doc_not_numeric = in_document [Element (kml_ns ''Placemark'') None [point_of (Some ''a,b'')]]"

definition doc_altitude :: element where
  "doc_altitude = in_document
     [Element (kml_ns ''Placemark'') None [point_of (Some ''20'')],
      Element (kml_ns ''Placemark'') None [point_of (Some ''10,20,10'')]]"

section \<open>Properties of create\_square\_polygon\<close>

lemma cos_radians_pos:
  assumes "-90 < lat" and "lat < 90"
  shows "0 < cos (radians lat)"
proof -
  have "(-90) * pi < lat * pi"
    using assms(1) pi_gt_zero by (rule mult_strict_right_mono)
  then have lower: "- (pi / 2) < radians lat" by (simp add: radians_def)
  have "lat * pi < 90 * pi"
    using assms(2) pi_gt_zero by (rule mult_strict_right_mono)
  then have upper: "radians lat < pi / 2" by (simp add: radians_def)
  from lower upper show ?thesis by (rule cos_gt_zero_pi)
qed

lemma create_square_polygon_cases:
  "create_square_polygon lat lon r =
     (if 111000 * cos (radians lat) = 0 then Inl ''ZeroDivisionError''
      else Inr (Polygon
        [(lat - r / 111000, lon - r / (111000 * cos (radians lat))),
         (lat - r / 111000, lon + r / (111000 * cos (radians lat))),
         (lat + r / 111000, lon + r / (111000 * cos (radians lat))),
         (lat + r / 111000, lon - r / (111000 * cos (radians lat))),
         (lat - r / 111000, lon - r / (111000 * cos (radians lat)))] []))"
  by (simp add: create_square_polygon_def truediv_def)

text \<open>
  C1. For every point whose latitude is strictly between -90 and 90 and every radius
  \<open>r\<close>, \<open>create_square_polygon\<close> returns a ring of exactly five coordinate pairs,
  the first equal to the last, in the order south-west, south-east, north-east,
  north-west, south-west, with the latitude offset \<open>r / 111000\<close> and the longitude
  offset \<open>r / (111000 * cos (radians lat))\<close>.
\<close>

theorem create_square_polygon_ring:
  assumes "-90 < lat" and "lat < 90"
  shows "\<exists>ring. create_square_polygon lat lon r = Inr (Polygon ring [])
           \<and> length ring = 5 \<and> hd ring = last ring
           \<and> ring =
               [(lat - r / 111000, lon - r / (111000 * cos (radians lat))),
                (lat - r / 111000, lon + r / (111000 * cos (radians lat))),
                (lat + r / 111000, lon + r / (111000 * cos (radians lat))),
                (lat + r / 111000, lon - r / (111000 * cos (radians lat))),
                (lat - r / 111000, lon - r / (111000 * cos (radians lat)))]"
proof -
  have "0 < cos (radians lat)" using assms by (rule cos_radians_pos)
  then have "111000 * cos (radians lat) \<noteq> 0" by simp
  then show ?thesis by (simp add: create_square_polygon_cases)
qed

theorem create_square_polygon_ring_witness:
  "(-90::real) < 0 \<and> (0::real) < 90
   \<and> create_square_polygon 0 0 111000 =
       Inr (Polygon [(-1, -1), (-1, 1), (1, 1), (1, -1), (-1, -1)] [])"
  using create_square_polygon_ring [of 0 0 111000] by (simp add: radians_def)

text \<open>
  C5 (as stated, refuted). The source has no check of the radius: with radius 0 the
  function does not fail, it returns the degenerate ring of five copies of the point.
\<close>

theorem create_square_polygon_zero_radius_counterexample:
  "create_square_polygon 0 0 0 = Inr (Polygon [(0, 0), (0, 0), (0, 0), (0, 0), (0, 0)] [])"
  by (simp add: create_square_polygon_cases radians_def)

text \<open>
  C5 (amended). \<open>create_square_polygon\<close> performs no radius check: for every latitude
  strictly between -90 and 90 and every radius, positive, zero or negative, it succeeds
  and returns a polygon; a failure that depends on the radius does not exist.
\<close>

theorem create_square_polygon_any_radius:
  assumes "-90 < lat" and "lat < 90"
  shows "\<exists>ring. create_square_polygon lat lon r = Inr (Polygon ring [])"
proof -
  have "0 < cos (radians lat)" using assms by (rule cos_radians_pos)
  then have "111000 * cos (radians lat) \<noteq> 0" by simp
  then show ?thesis by (simp add: create_square_polygon_cases)
qed

theorem create_square_polygon_any_radius_witness:
  "(-90::real) < 0 \<and> (0::real) < 90
   \<and> (\<exists>ring. create_square_polygon 0 0 (-111000) = Inr (Polygon ring []))"
  using create_square_polygon_any_radius [of 0 0 "-111000"] by simp

lemma create_square_polygon_as_instance:
  "create_square_polygon lat lon r = create_square_polygon_with (\<lambda>d. cos (radians d)) lat lon r"
  by (simp add: create_square_polygon_def create_square_polygon_with_def)

text \<open>
  C9 (as stated, refuted). At latitude 90 with radius 120 the source does not fail: the
  cosine it computes there is the double \<open>6.123233995736766e-17\<close>, the division is
  defined, and a polygon with a very large longitude offset is returned.
\<close>

theorem create_square_polygon_pole_counterexample:
  "create_square_polygon_with (\<lambda>d. 6123233995736766 / 10 ^ 32) 90 0 120 =
     Inr (Polygon
       [(90 - 120 / 111000, 0 - 120 / (111000 * (6123233995736766 / 10 ^ 32))),
        (90 - 120 / 111000, 0 + 120 / (111000 * (6123233995736766 / 10 ^ 32))),
        (90 + 120 / 111000, 0 + 120 / (111000 * (6123233995736766 / 10 ^ 32))),
        (90 + 120 / 111000, 0 - 120 / (111000 * (6123233995736766 / 10 ^ 32))),
        (90 - 120 / 111000, 0 - 120 / (111000 * (6123233995736766 / 10 ^ 32)))] [])"
  by (simp add: create_square_polygon_with_def truediv_def)

text \<open>
  C9 (amended). The source has no latitude guard and no failure of its own for the
  poles. At every latitude, 90 and -90 included, where the cosine it computes is not
  zero, it returns the ring of five vertices built from the latitude offset
  \<open>r / 111000\<close> and the longitude offset \<open>r / (111000 * cosine)\<close>, as it does
  everywhere else.
\<close>

theorem create_square_polygon_with_no_guard:
  assumes "cos_radians lat \<noteq> 0"
  shows "create_square_polygon_with cos_radians lat lon r =
     Inr (Polygon
       [(lat - r / 111000, lon - r / (111000 * cos_radians lat)),
        (lat - r / 111000, lon + r / (111000 * cos_radians lat)),
        (lat + r / 111000, lon + r / (111000 * cos_radians lat)),
        (lat + r / 111000, lon - r / (111000 * cos_radians lat)),
        (lat - r / 111000, lon - r / (111000 * cos_radians lat))] [])"
  using assms by (simp add: create_square_polygon_with_def truediv_def)

theorem create_square_polygon_with_no_guard_witness:
  "(6123233995736766 / 10 ^ 32 :: real) \<noteq> 0
   \<and> create_square_polygon_with (\<lambda>d. 6123233995736766 / 10 ^ 32) (-90) 10 40 =
     Inr (Polygon
       [(-90 - 40 / 111000, 10 - 40 / (111000 * (6123233995736766 / 10 ^ 32))),
        (-90 - 40 / 111000, 10 + 40 / (111000 * (6123233995736766 / 10 ^ 32))),
        (-90 + 40 / 111000, 10 + 40 / (111000 * (6123233995736766 / 10 ^ 32))),
        (-90 + 40 / 111000, 10 - 40 / (111000 * (6123233995736766 / 10 ^ 32))),
        (-90 - 40 / 111000, 10 - 40 / (111000 * (6123233995736766 / 10 ^ 32)))] [])"
  using create_square_polygon_with_no_guard
    [of "\<lambda>d. 6123233995736766 / 10 ^ 32" "-90" 10 40]
  by simp

section \<open>Properties of merge\_intersecting\_polygons\<close>

lemma merge_union_raises:
  "2 \<le> length P \<Longrightarrow> U P = Inl e \<Longrightarrow> merge_intersecting_polygons U P = (P, [e])"
  by (auto simp: merge_intersecting_polygons_def)

lemma merge_union_polygon:
  "2 \<le> length P \<Longrightarrow> U P = Inr (Polygon ext ints)
     \<Longrightarrow> merge_intersecting_polygons U P = ([Polygon ext ints], [])"
  by (auto simp: merge_intersecting_polygons_def)

lemma merge_union_multi:
  "2 \<le> length P \<Longrightarrow> U P = Inr (MultiPolygon gs)
     \<Longrightarrow> merge_intersecting_polygons U P = (gs, [])"
  by (auto simp: merge_intersecting_polygons_def)

lemma merge_short:
  "length P \<le> 1 \<Longrightarrow> merge_intersecting_polygons U P = (P, [])"
  by (cases P) (auto simp: merge_intersecting_polygons_def)

text \<open>
  C3. When the union step raises on the input, \<open>merge_intersecting_polygons\<close> does not
  propagate the exception: it returns the input list unchanged.
\<close>

theorem merge_falls_back_on_error:
  assumes "unary_union polygons = Inl e"
  shows "fst (merge_intersecting_polygons unary_union polygons) = polygons"
proof (cases "length polygons \<le> 1")
  case True
  then show ?thesis by (simp add: merge_short)
next
  case False
  then have "2 \<le> length polygons" by simp
  then show ?thesis using assms by (simp add: merge_union_raises)
qed

theorem merge_falls_back_on_error_witness:
  "(\<lambda>ps. Inl ''GEOSException'' :: error + geometry)
       [Polygon [(0, 0), (0, 1), (0, 0), (0, 0)] [], Polygon [(0, 0), (0, 1), (0, 0), (0, 0)] []]
     = Inl ''GEOSException''
   \<and> merge_intersecting_polygons (\<lambda>ps. Inl ''GEOSException'')
       [Polygon [(0, 0), (0, 1), (0, 0), (0, 0)] [], Polygon [(0, 0), (0, 1), (0, 0), (0, 0)] []]
     = ([Polygon [(0, 0), (0, 1), (0, 0), (0, 0)] [], Polygon [(0, 0), (0, 1), (0, 0), (0, 0)] []],
        [''GEOSException''])"
  using merge_falls_back_on_error
    [of "\<lambda>ps. Inl ''GEOSException''"
        "[Polygon [(0, 0), (0, 1), (0, 0), (0, 0)] [], Polygon [(0, 0), (0, 1), (0, 0), (0, 0)] []]"
        "''GEOSException''"]
  by (simp add: merge_intersecting_polygons_def)

subsection \<open>The union of the specification\<close>

lemma length_concat_filter_split:
  "length (concat (filter P xs)) + length (concat (filter (\<lambda>x. \<not> P x) xs))
     = length (concat xs)"
  by (induction xs) auto

lemma components_cover: "length (concat (components intersects ps)) = length ps"
proof (induction ps)
  case Nil
  then show ?case by simp
next
  case (Cons p ps)
  have "length (concat (components intersects (p # ps)))
        = Suc (length (concat (filter (touches intersects p) (components intersects ps)))
               + length (concat (filter (\<lambda>c. \<not> touches intersects p c)
                                   (components intersects ps))))"
    by simp
  also have "\<dots> = Suc (length (concat (components intersects ps)))"
    by (simp only: length_concat_filter_split)
  finally show ?case using Cons.IH by simp
qed

lemma set_concat_filter_split:
  "set (concat (filter P xs)) \<union> set (concat (filter (\<lambda>x. \<not> P x) xs)) = set (concat xs)"
  by (induction xs) auto

lemma components_members: "set (concat (components intersects ps)) = set ps"
proof (induction ps)
  case Nil
  then show ?case by simp
next
  case (Cons p ps)
  have "set (concat (components intersects (p # ps)))
        = insert p (set (concat (filter (touches intersects p) (components intersects ps)))
                    \<union> set (concat (filter (\<lambda>c. \<not> touches intersects p c)
                                          (components intersects ps))))"
    by simp
  also have "\<dots> = insert p (set (concat (components intersects ps)))"
    by (simp only: set_concat_filter_split)
  finally show ?case using Cons.IH by simp
qed

lemma components_not_empty: "[] \<notin> set (components intersects ps)"
  by (induction ps) auto

lemma length_le_length_concat: "[] \<notin> set xss \<Longrightarrow> length xss \<le> length (concat xss)"
proof (induction xss)
  case Nil
  then show ?case by simp
next
  case (Cons xs xss)
  then have "xs \<noteq> []" and "length xss \<le> length (concat xss)" by auto
  then show ?case by (cases xs) auto
qed

lemma components_count: "length (components intersects ps) \<le> length ps"
  using length_le_length_concat [OF components_not_empty, of intersects ps]
  by (simp add: components_cover)

lemma components_some: "ps \<noteq> [] \<Longrightarrow> components intersects ps \<noteq> []"
  by (cases ps) auto

text \<open>
  C2. With the union step as the specification describes it, \<open>merge\<close> returns at most
  as many polygons as it is given, and at least one for a non-empty input.
\<close>

theorem merge_count_bounds:
  "length (fst (merge_intersecting_polygons (unary_union_spec degenerate intersects fuse) P))
     \<le> length P
   \<and> (P \<noteq> [] \<longrightarrow>
        1 \<le> length (fst (merge_intersecting_polygons
                            (unary_union_spec degenerate intersects fuse) P)))"
proof (cases "length P \<le> 1")
  case True
  then show ?thesis by (cases P) (simp_all add: merge_short)
next
  case False
  then have two: "2 \<le> length P" by simp
  then have ne: "P \<noteq> []" by auto
  show ?thesis
  proof (cases "list_ex degenerate P")
    case True
    then have "unary_union_spec degenerate intersects fuse P = Inl ''GeometryError''"
      by (simp add: unary_union_spec_def)
    with two show ?thesis by (simp add: merge_union_raises)
  next
    case False
    have count: "length (components intersects P) \<le> length P" by (rule components_count)
    have some: "components intersects P \<noteq> []" using ne by (rule components_some)
    show ?thesis
    proof (cases "components intersects P")
      case Nil
      with some show ?thesis by simp
    next
      case (Cons c cs)
      show ?thesis
      proof (cases cs)
        case Nil
        with Cons False
        have "unary_union_spec degenerate intersects fuse P
                = Inr (Polygon (fst (fuse c)) (snd (fuse c)))"
          by (simp add: unary_union_spec_def)
        with two show ?thesis by (simp add: merge_union_polygon)
      next
        case (Cons c' cs')
        with \<open>components intersects P = c # cs\<close> False
        have "unary_union_spec degenerate intersects fuse P
                = Inr (MultiPolygon (map (\<lambda>c. Polygon (fst (fuse c)) (snd (fuse c)))
                                       (components intersects P)))"
          by (simp add: unary_union_spec_def)
        with two have "fst (merge_intersecting_polygons
                              (unary_union_spec degenerate intersects fuse) P)
                = map (\<lambda>c. Polygon (fst (fuse c)) (snd (fuse c))) (components intersects P)"
          by (simp add: merge_union_multi)
        with count some show ?thesis by (cases "components intersects P") simp_all
      qed
    qed
  qed
qed

theorem merge_count_bounds_witness:
  "[square_a, square_b, square_c] \<noteq> []
   \<and> components sample_intersects [square_a, square_b, square_c]
       = [[square_a, square_b], [square_c]]
   \<and> merge_intersecting_polygons (unary_union_spec (\<lambda>g. False) sample_intersects sample_fuse)
         [square_a, square_b, square_c]
       = ([Polygon [(0, 0), (0, 2), (3, 2), (3, 0), (0, 0)] [], square_c], [])"
  using merge_count_bounds
    [where P = "[square_a, square_b, square_c]" and degenerate = "\<lambda>g. False"
       and intersects = sample_intersects and fuse = sample_fuse]
  by (simp add: merge_intersecting_polygons_def unary_union_spec_def touches_def
      sample_intersects_def sample_fuse_def square_a_def square_b_def square_c_def)

section \<open>Properties of create\_output\_kml\<close>

lemma polygons_loop_Inr:
  "polygons_loop int_hex color opacity i ps kml0 = Inr kml
   \<Longrightarrow> \<forall>g\<in>set ps. geom_type g = ''Polygon''
   \<Longrightarrow> kml = kml0 @ map (\<lambda>(j, poly).
         KmlPolygon (area_name j)
           (Color_rgb (projr (int_hex (take 2 (drop 1 color))))
              (projr (int_hex (take 2 (drop 3 color)))) (projr (int_hex (take 2 (drop 5 color)))))
           2
           (Color_changealphaint (int_of_float (opacity * 255))
              (Color_rgb (projr (int_hex (take 2 (drop 1 color))))
                 (projr (int_hex (take 2 (drop 3 color)))) (projr (int_hex (take 2 (drop 5 color))))))
           (map (\<lambda>(lat, lon). (lon, lat)) (exterior_coords poly))) (List.enumerate i ps)"
proof (induction ps arbitrary: i kml0)
  case Nil
  then show ?case by simp
next
  case (Cons p ps)
  from Cons.prems(2) have p: "geom_type p = ''Polygon''"
    and rest: "\<forall>g\<in>set ps. geom_type g = ''Polygon''"
    by simp_all
  from Cons.prems(1) p obtain r g b
    where r: "int_hex (take 2 (drop 1 color)) = Inr r"
      and g: "int_hex (take 2 (drop 3 color)) = Inr g"
      and b: "int_hex (take 2 (drop 5 color)) = Inr b"
    by (auto split: sum.splits)
  from Cons.prems(1) p r g b
  have "polygons_loop int_hex color opacity (i + 1) ps
          (kml0 @ [KmlPolygon (area_name i) (Color_rgb r g b) 2
                     (Color_changealphaint (int_of_float (opacity * 255)) (Color_rgb r g b))
                     (map (\<lambda>(lat, lon). (lon, lat)) (exterior_coords p))]) = Inr kml"
    by simp
  from Cons.IH [OF this rest] show ?case
    using r g b by simp
qed

text \<open>
  C8 (as stated, refuted). The name of the first area is not the ASCII string of the
  claim: the source writes the Portuguese word, whose first letter is U+00C1.
\<close>

theorem create_output_kml_name_counterexample:
  "create_output_kml (\<lambda>s. if s = ''FF'' then Inr 255 else Inl ''ValueError'')
     [Polygon [(1, 2), (1, 4), (3, 4), (3, 2), (1, 2)] []] [] 120 ''#FFFFFF'' 1
   = Inr [KmlPolygon
            [CHR 0xC3, CHR 0x81, CHR ''r'', CHR ''e'', CHR ''a'', CHR '' '', CHR ''1'']
            (Color_rgb 255 255 255) 2 (Color_changealphaint 255 (Color_rgb 255 255 255))
            [(2, 1), (4, 1), (4, 3), (2, 3), (2, 1)]]
   \<and> [CHR 0xC3, CHR 0x81, CHR ''r'', CHR ''e'', CHR ''a'', CHR '' '', CHR ''1''] \<noteq> ''Area 1''"
  by (simp add: create_output_kml_def original_points_def area_name_def str_nat.simps
      int_of_float_def)

text \<open>
  C8 (amended). Whenever \<open>create_output_kml\<close> returns a document for a list whose
  elements are all polygons, the document holds the markers of the placemarks followed
  by one area for each polygon, in order; the area at position \<open>i\<close> (counted from 0)
  is named by the source's literal, the bytes C3 81 and \<open>rea\<close>, a space and the decimal
  digits of \<open>i + 1\<close>, and its outer boundary is the exterior ring of the polygon with
  each pair \<open>(lat, lon)\<close> written as \<open>(lon, lat)\<close>.
\<close>

theorem create_output_kml_areas:
  assumes polys: "\<forall>g\<in>set polygons. geom_type g = ''Polygon''"
    and ok: "create_output_kml int_hex polygons placemarks radius color opacity = Inr kml"
  shows "length kml = length placemarks + length polygons
     \<and> take (length placemarks) kml = original_points placemarks
     \<and> (\<forall>i<length polygons.
          (\<exists>lc pc. kml ! (length placemarks + i) =
             KmlPolygon ([CHR 0xC3, CHR 0x81] @ ''rea '' @ str_nat (i + 1)) lc 2 pc
               (map (\<lambda>(lat, lon). (lon, lat)) (exterior_coords (polygons ! i)))))"
proof -
  let ?rgb = "Color_rgb (projr (int_hex (take 2 (drop 1 color))))
              (projr (int_hex (take 2 (drop 3 color)))) (projr (int_hex (take 2 (drop 5 color))))"
  let ?area = "\<lambda>(j, poly).
         KmlPolygon (area_name j) ?rgb 2
           (Color_changealphaint (int_of_float (opacity * 255)) ?rgb)
           (map (\<lambda>(lat, lon). (lon, lat)) (exterior_coords poly))"
  have kml: "kml = original_points placemarks @ map ?area (List.enumerate 0 polygons)"
    using ok polys unfolding create_output_kml_def by (rule polygons_loop_Inr)
  have len: "length (original_points placemarks) = length placemarks"
    by (simp add: original_points_def)
  show ?thesis
    using len by (auto simp: kml nth_append nth_enumerate_eq area_name_def)
qed

theorem create_output_kml_areas_witness:
  "geom_type (Polygon [(1, 2), (1, 4), (3, 4), (3, 2), (1, 2)] []) = ''Polygon''
   \<and> geom_type (Polygon [(5, 6), (5, 8), (7, 8), (7, 6), (5, 6)] []) = ''Polygon''
   \<and> create_output_kml (\<lambda>s. if s = ''FF'' then Inr 255 else Inl ''ValueError'')
       [Polygon [(1, 2), (1, 4), (3, 4), (3, 2), (1, 2)] [],
        Polygon [(5, 6), (5, 8), (7, 8), (7, 6), (5, 6)] []]
       [\<lparr>pm_name = Some ''A'', pm_description = Some [], pm_lat = 2, pm_lon = 3,
         pm_coords = ''3,2''\<rparr>]
       120 ''#FFFFFF'' 1
     = Inr [KmlPoint ''Original: A'' [(3, 2)] Color_blue 0.5,
            KmlPolygon ([CHR 0xC3, CHR 0x81] @ ''rea 1'')
              (Color_rgb 255 255 255) 2 (Color_changealphaint 255 (Color_rgb 255 255 255))
              [(2, 1), (4, 1), (4, 3), (2, 3), (2, 1)],
            KmlPolygon ([CHR 0xC3, CHR 0x81] @ ''rea 2'')
              (Color_rgb 255 255 255) 2 (Color_changealphaint 255 (Color_rgb 255 255 255))
              [(6, 5), (8, 5), (8, 7), (6, 7), (6, 5)]]"
  using create_output_kml_areas
    [where polygons = "[Polygon [(1, 2), (1, 4), (3, 4), (3, 2), (1, 2)] [],
                        Polygon [(5, 6), (5, 8), (7, 8), (7, 6), (5, 6)] []]"
       and int_hex = "\<lambda>s. if s = ''FF'' then Inr 255 else Inl ''ValueError''"
       and placemarks = "[\<lparr>pm_name = Some ''A'', pm_description = Some [], pm_lat = 2,
                           pm_lon = 3, pm_coords = ''3,2''\<rparr>]"
       and radius = 120 and color = "''#FFFFFF''" and opacity = 1]
  by (simp add: create_output_kml_def original_points_def area_name_def str_nat.simps
      int_of_float_def)

section \<open>Properties of parse\_kml\<close>

subsection \<open>The body of the loop, case by case\<close>

lemma parse_placemark_no_point:
  "find_Point_coordinates p = None \<Longrightarrow> parse_placemark strip f p = Inr None"
  by (simp add: parse_placemark_def)

lemma parse_placemark_no_text:
  "find_Point_coordinates p = Some point \<Longrightarrow> elem_text point = None
     \<Longrightarrow> parse_placemark strip f p = Inl ''AttributeError''"
  by (simp add: parse_placemark_def)

lemma parse_placemark_few_fields:
  "find_Point_coordinates p = Some point \<Longrightarrow> elem_text point = Some t
     \<Longrightarrow> length (split CHR '','' (strip t)) < 2
     \<Longrightarrow> parse_placemark strip f p = Inr None"
  by (simp add: parse_placemark_def Let_def)

lemma parse_placemark_fields:
  "find_Point_coordinates p = Some point \<Longrightarrow> elem_text point = Some t
     \<Longrightarrow> 2 \<le> length (split CHR '','' (strip t))
     \<Longrightarrow> parse_placemark strip f p =
         (case f (split CHR '','' (strip t) ! 0) of
            Inl e \<Rightarrow> Inl e
          | Inr lon \<Rightarrow>
              (case f (split CHR '','' (strip t) ! 1) of
                 Inl e \<Rightarrow> Inl e
               | Inr lat \<Rightarrow>
                   Inr (Some \<lparr>pm_name = (case find_child (kml_ns ''name'') p of
                                              Some e \<Rightarrow> elem_text e | None \<Rightarrow> Some ''Sem nome''),
                              pm_description = (case find_child (kml_ns ''description'') p of
                                              Some e \<Rightarrow> elem_text e | None \<Rightarrow> Some []),
                              pm_lat = lat, pm_lon = lon, pm_coords = strip t\<rparr>)))"
  by (simp add: parse_placemark_def Let_def)

lemma parse_placemark_SomeD:
  assumes "parse_placemark strip f p = Inr (Some d)"
  obtains point t lon lat where
    "find_Point_coordinates p = Some point" and "elem_text point = Some t"
    and "2 \<le> length (split CHR '','' (strip t))"
    and "f (split CHR '','' (strip t) ! 0) = Inr lon"
    and "f (split CHR '','' (strip t) ! 1) = Inr lat"
    and "d = \<lparr>pm_name = (case find_child (kml_ns ''name'') p of
                            Some e \<Rightarrow> elem_text e | None \<Rightarrow> Some ''Sem nome''),
              pm_description = (case find_child (kml_ns ''description'') p of
                            Some e \<Rightarrow> elem_text e | None \<Rightarrow> Some []),
              pm_lat = lat, pm_lon = lon, pm_coords = strip t\<rparr>"
proof (cases "find_Point_coordinates p")
  case None
  then have "parse_placemark strip f p = Inr None" by (rule parse_placemark_no_point)
  with assms show ?thesis by simp
next
  case (Some point)
  show ?thesis
  proof (cases "elem_text point")
    case None
    with Some have "parse_placemark strip f p = Inl ''AttributeError''"
      by (rule parse_placemark_no_text)
    with assms show ?thesis by simp
  next
    case has_text: (Some t)
    show ?thesis
    proof (cases "2 \<le> length (split CHR '','' (strip t))")
      case False
      then have "length (split CHR '','' (strip t)) < 2" by simp
      with Some has_text have "parse_placemark strip f p = Inr None"
        by (rule parse_placemark_few_fields [where strip = strip])
      with assms show ?thesis by simp
    next
      case True
      note eq = parse_placemark_fields [where strip = strip and f = f, OF Some has_text True]
      show ?thesis
      proof (cases "f (split CHR '','' (strip t) ! 0)")
        case (Inl e)
        with eq assms show ?thesis by simp
      next
        case lon: (Inr lon)
        show ?thesis
        proof (cases "f (split CHR '','' (strip t) ! 1)")
          case (Inl e)
          with eq lon assms show ?thesis by simp
        next
          case lat: (Inr lat)
          from eq lon lat assms
          have "d = \<lparr>pm_name = (case find_child (kml_ns ''name'') p of
                            Some e \<Rightarrow> elem_text e | None \<Rightarrow> Some ''Sem nome''),
              pm_description = (case find_child (kml_ns ''description'') p of
                            Some e \<Rightarrow> elem_text e | None \<Rightarrow> Some []),
              pm_lat = lat, pm_lon = lon, pm_coords = strip t\<rparr>"
            by simp
          with Some has_text True lon lat show ?thesis by (rule that)
        qed
      qed
    qed
  qed
qed

lemma parse_placemark_Some:
  assumes "parse_placemark strip f p = Inr (Some d)"
  shows "has_point_fields strip p"
    and "pm_name d = (case find_child (kml_ns ''name'') p of
                        None \<Rightarrow> Some ''Sem nome'' | Some e \<Rightarrow> elem_text e)"
    and "pm_description d = (case find_child (kml_ns ''description'') p of
                        None \<Rightarrow> Some [] | Some e \<Rightarrow> elem_text e)"
    and "coords_text_of strip p = Some (pm_coords d)"
    and "f (split CHR '','' (the (coords_text_of strip p)) ! 0) = Inr (pm_lon d)"
    and "f (split CHR '','' (the (coords_text_of strip p)) ! 1) = Inr (pm_lat d)"
proof -
  from assms obtain point t lon lat where
    point: "find_Point_coordinates p = Some point" and has_text: "elem_text point = Some t"
    and len: "2 \<le> length (split CHR '','' (strip t))"
    and lon: "f (split CHR '','' (strip t) ! 0) = Inr lon"
    and lat: "f (split CHR '','' (strip t) ! 1) = Inr lat"
    and d: "d = \<lparr>pm_name = (case find_child (kml_ns ''name'') p of
                            Some e \<Rightarrow> elem_text e | None \<Rightarrow> Some ''Sem nome''),
              pm_description = (case find_child (kml_ns ''description'') p of
                            Some e \<Rightarrow> elem_text e | None \<Rightarrow> Some []),
              pm_lat = lat, pm_lon = lon, pm_coords = strip t\<rparr>"
    by (rule parse_placemark_SomeD)
  have ct: "coords_text_of strip p = Some (strip t)"
    using point has_text by (simp add: coords_text_of_def)
  show "has_point_fields strip p" using ct len by (simp add: has_point_fields_def)
  show "pm_name d = (case find_child (kml_ns ''name'') p of
                        None \<Rightarrow> Some ''Sem nome'' | Some e \<Rightarrow> elem_text e)"
    by (cases "find_child (kml_ns ''name'') p") (simp_all add: d)
  show "pm_description d = (case find_child (kml_ns ''description'') p of
                        None \<Rightarrow> Some [] | Some e \<Rightarrow> elem_text e)"
    by (cases "find_child (kml_ns ''description'') p") (simp_all add: d)
  show "coords_text_of strip p = Some (pm_coords d)" using ct by (simp add: d)
  show "f (split CHR '','' (the (coords_text_of strip p)) ! 0) = Inr (pm_lon d)"
    using ct lon by (simp add: d)
  show "f (split CHR '','' (the (coords_text_of strip p)) ! 1) = Inr (pm_lat d)"
    using ct lat by (simp add: d)
qed

lemma parse_placemark_None:
  assumes "parse_placemark strip f p = Inr None"
  shows "\<not> has_point_fields strip p"
proof (cases "find_Point_coordinates p")
  case None
  then show ?thesis by (simp add: has_point_fields_def coords_text_of_def)
next
  case (Some point)
  show ?thesis
  proof (cases "elem_text point")
    case None
    with Some show ?thesis by (simp add: has_point_fields_def coords_text_of_def)
  next
    case has_text: (Some t)
    have ct: "coords_text_of strip p = Some (strip t)"
      using Some has_text by (simp add: coords_text_of_def)
    show ?thesis
    proof (cases "2 \<le> length (split CHR '','' (strip t))")
      case False
      with ct show ?thesis by (simp add: has_point_fields_def)
    next
      case True
      note eq = parse_placemark_fields [where strip = strip and f = f, OF Some has_text True]
      show ?thesis
      proof (cases "f (split CHR '','' (strip t) ! 0)")
        case (Inl e)
        with eq assms show ?thesis by simp
      next
        case lon: (Inr lon)
        show ?thesis
        proof (cases "f (split CHR '','' (strip t) ! 1)")
          case (Inl e)
          with eq lon assms show ?thesis by simp
        next
          case (Inr lat)
          with eq lon assms show ?thesis by simp
        qed
      qed
    qed
  qed
qed


lemma entry_Some:
  assumes "\<not> isl (parse_placemark strip f p)" and "has_point_fields strip p"
  shows "parse_placemark strip f p = Inr (Some (the (projr (parse_placemark strip f p))))"
proof -
  from assms(1) obtain r where r: "parse_placemark strip f p = Inr r"
    by (cases "parse_placemark strip f p") auto
  have "r \<noteq> None"
  proof
    assume "r = None"
    with r have "parse_placemark strip f p = Inr None" by simp
    then have "\<not> has_point_fields strip p" by (rule parse_placemark_None)
    with assms(2) show False by simp
  qed
  with r show ?thesis by auto
qed

lemma entry_None:
  assumes "\<not> isl (parse_placemark strip f p)" and "\<not> has_point_fields strip p"
  shows "parse_placemark strip f p = Inr None"
proof -
  from assms(1) obtain r where r: "parse_placemark strip f p = Inr r"
    by (cases "parse_placemark strip f p") auto
  show ?thesis
  proof (cases r)
    case None
    with r show ?thesis by simp
  next
    case (Some d)
    with r have "parse_placemark strip f p = Inr (Some d)" by simp
    then have "has_point_fields strip p" by (rule parse_placemark_Some(1))
    with assms(2) show ?thesis by simp
  qed
qed


subsection \<open>The loop and the whole function\<close>

lemma placemarks_loop_ok:
  "\<forall>p\<in>set ps. \<not> isl (parse_placemark strip f p) \<Longrightarrow>
   placemarks_loop strip f ps acc =
     Inr (acc @ concat (map (\<lambda>p. case parse_placemark strip f p of
                                    Inr (Some d) \<Rightarrow> [d] | _ \<Rightarrow> []) ps))"
proof (induction ps arbitrary: acc)
  case Nil
  then show ?case by simp
next
  case (Cons p ps)
  from Cons.prems have rest: "\<forall>p\<in>set ps. \<not> isl (parse_placemark strip f p)" by simp
  from Cons.prems obtain r where r: "parse_placemark strip f p = Inr r"
    by (cases "parse_placemark strip f p") auto
  show ?case
  proof (cases r)
    case None
    with r Cons.IH [OF rest, of acc] show ?thesis by simp
  next
    case (Some d)
    with r Cons.IH [OF rest, of "acc @ [d]"] show ?thesis by simp
  qed
qed

lemma placemarks_loop_fail:
  "\<exists>p\<in>set ps. isl (parse_placemark strip f p) \<Longrightarrow> isl (placemarks_loop strip f ps acc)"
proof (induction ps arbitrary: acc)
  case Nil
  then show ?case by simp
next
  case (Cons p ps)
  show ?case
  proof (cases "parse_placemark strip f p")
    case (Inl e)
    then show ?thesis by simp
  next
    case (Inr r)
    with Cons.prems have "\<exists>p\<in>set ps. isl (parse_placemark strip f p)" by auto
    then have "\<And>acc. isl (placemarks_loop strip f ps acc)" by (rule Cons.IH)
    with Inr show ?thesis by (cases r) simp_all
  qed
qed

lemma placemarks_loop_Inr:
  assumes "placemarks_loop strip f ps acc = Inr out"
  shows "out = acc @ concat (map (\<lambda>p. case parse_placemark strip f p of
                                        Inr (Some d) \<Rightarrow> [d] | _ \<Rightarrow> []) ps)"
    and "\<forall>p\<in>set ps. \<not> isl (parse_placemark strip f p)"
proof -
  show all: "\<forall>p\<in>set ps. \<not> isl (parse_placemark strip f p)"
  proof (rule ccontr)
    assume "\<not> (\<forall>p\<in>set ps. \<not> isl (parse_placemark strip f p))"
    then have "\<exists>p\<in>set ps. isl (parse_placemark strip f p)" by simp
    then have "isl (placemarks_loop strip f ps acc)" by (rule placemarks_loop_fail)
    with assms show False by simp
  qed
  from placemarks_loop_ok [OF all, of acc] assms
  show "out = acc @ concat (map (\<lambda>p. case parse_placemark strip f p of
                                        Inr (Some d) \<Rightarrow> [d] | _ \<Rightarrow> []) ps)"
    by simp
qed

lemma entries_filter:
  assumes "\<forall>p\<in>set ps. \<not> isl (parse_placemark strip f p)"
  shows "concat (map (\<lambda>p. case parse_placemark strip f p of
                            Inr (Some d) \<Rightarrow> [d] | _ \<Rightarrow> []) ps)
         = map (\<lambda>p. the (projr (parse_placemark strip f p)))
             (filter (has_point_fields strip) ps)"
  using assms
proof (induction ps)
  case Nil
  then show ?case by simp
next
  case (Cons p ps)
  then have rest: "concat (map (\<lambda>p. case parse_placemark strip f p of
                                      Inr (Some d) \<Rightarrow> [d] | _ \<Rightarrow> []) ps)
         = map (\<lambda>p. the (projr (parse_placemark strip f p)))
             (filter (has_point_fields strip) ps)"
    by simp
  from Cons.prems have ok: "\<not> isl (parse_placemark strip f p)" by simp
  show ?case
  proof (cases "has_point_fields strip p")
    case True
    from entry_Some [OF ok True] obtain d where "parse_placemark strip f p = Inr (Some d)"
      by blast
    with True rest show ?thesis by simp
  next
    case False
    from entry_None [OF ok False] False rest show ?thesis by simp
  qed
qed

lemma parse_kml_Inr:
  assumes "parse_kml ET_parse strip py_float file_content = Inr (placemarks, doc_root)"
  shows "ET_parse file_content = Inr doc_root"
    and "\<forall>p\<in>set (findall_Placemark doc_root). \<not> isl (parse_placemark strip py_float p)"
    and "placemarks = map (\<lambda>p. the (projr (parse_placemark strip py_float p)))
                        (filter (has_point_fields strip) (findall_Placemark doc_root))"
proof -
  from assms obtain r where parsed: "ET_parse file_content = Inr r"
    by (cases "ET_parse file_content") (simp_all add: parse_kml_def)
  with assms obtain out
    where loop: "placemarks_loop strip py_float (findall_Placemark r) [] = Inr out"
    by (cases "placemarks_loop strip py_float (findall_Placemark r) []")
      (simp_all add: parse_kml_def)
  from assms parsed loop have same: "r = doc_root" "out = placemarks"
    by (simp_all add: parse_kml_def)
  from parsed same show "ET_parse file_content = Inr doc_root" by simp
  from loop same
  have loop': "placemarks_loop strip py_float (findall_Placemark doc_root) [] = Inr placemarks"
    by simp
  then show all: "\<forall>p\<in>set (findall_Placemark doc_root).
                    \<not> isl (parse_placemark strip py_float p)"
    by (rule placemarks_loop_Inr(2))
  from placemarks_loop_Inr(1) [OF loop'] entries_filter [OF all]
  show "placemarks = map (\<lambda>p. the (projr (parse_placemark strip py_float p)))
                        (filter (has_point_fields strip) (findall_Placemark doc_root))"
    by simp
qed

lemma parse_kml_entries:
  assumes "parse_kml ET_parse strip py_float file_content = Inr (placemarks, doc_root)"
    and "p \<in> set (filter (has_point_fields strip) (findall_Placemark doc_root))"
  shows "parse_placemark strip py_float p
           = Inr (Some (the (projr (parse_placemark strip py_float p))))"
proof -
  from assms(2) have "p \<in> set (findall_Placemark doc_root)" and fields: "has_point_fields strip p"
    by simp_all
  with parse_kml_Inr(2) [OF assms(1)] have "\<not> isl (parse_placemark strip py_float p)"
    by simp
  then show ?thesis using fields by (rule entry_Some)
qed




text \<open>
  C7 (as stated, refuted). A placemark without a name is not given the name of the
  claim: the default of the source is the Portuguese \<open>Sem nome\<close>.
\<close>

theorem parse_kml_default_name_counterexample:
  "parse_kml (\<lambda>file. Inr doc_unnamed) (\<lambda>s. s) sample_float ''pontos.kml''
     = Inr ([\<lparr>pm_name = Some ''Sem nome'', pm_description = Some [], pm_lat = 20,
              pm_lon = 10, pm_coords = ''10,20''\<rparr>], doc_unnamed)
   \<and> ''Sem nome'' \<noteq> ''Unnamed''"
  by (simp add: parse_kml_def findall_Placemark_def doc_unnamed_def in_document_def
      point_of_def kml_ns_def parse_placemark_def find_Point_coordinates_def
      find_child_def sample_float_def)

text \<open>
  C7 (amended). In every extraction that returns a result, a placemark without a point
  geometry is skipped without an exception, and the entries are those of the placemarks
  with point fields, in document order; the name of an entry is the text of the \<open>name\<close>
  child of its placemark, or \<open>Sem nome\<close> when there is no such child, and its
  description is the text of the \<open>description\<close> child, or the empty string when there
  is none.
\<close>

theorem parse_kml_defaults:
  assumes "parse_kml ET_parse strip py_float file_content = Inr (placemarks, doc_root)"
  shows "map pm_name placemarks =
           map (\<lambda>p. case find_child (kml_ns ''name'') p of
                       None \<Rightarrow> Some ''Sem nome'' | Some e \<Rightarrow> elem_text e)
             (filter (has_point_fields strip) (findall_Placemark doc_root))
       \<and> map pm_description placemarks =
           map (\<lambda>p. case find_child (kml_ns ''description'') p of
                       None \<Rightarrow> Some [] | Some e \<Rightarrow> elem_text e)
             (filter (has_point_fields strip) (findall_Placemark doc_root))
       \<and> (\<forall>p\<in>set (findall_Placemark doc_root).
            find_Point_coordinates p = None
            \<longrightarrow> parse_placemark strip py_float p = Inr None \<and> \<not> has_point_fields strip p)"
proof -
  note entries = parse_kml_Inr(3) [OF assms]
  note each = parse_kml_entries [OF assms]
  have names: "map pm_name placemarks =
           map (\<lambda>p. case find_child (kml_ns ''name'') p of
                       None \<Rightarrow> Some ''Sem nome'' | Some e \<Rightarrow> elem_text e)
             (filter (has_point_fields strip) (findall_Placemark doc_root))"
    unfolding entries map_map comp_def
    by (rule map_cong [OF refl]) (rule parse_placemark_Some(2) [OF each])
  have descs: "map pm_description placemarks =
           map (\<lambda>p. case find_child (kml_ns ''description'') p of
                       None \<Rightarrow> Some [] | Some e \<Rightarrow> elem_text e)
             (filter (has_point_fields strip) (findall_Placemark doc_root))"
    unfolding entries map_map comp_def
    by (rule map_cong [OF refl]) (rule parse_placemark_Some(3) [OF each])
  have skip: "\<forall>p\<in>set (findall_Placemark doc_root).
            find_Point_coordinates p = None
            \<longrightarrow> parse_placemark strip py_float p = Inr None \<and> \<not> has_point_fields strip p"
    by (simp add: parse_placemark_no_point has_point_fields_def coords_text_of_def)
  from names descs skip show ?thesis by simp
qed

theorem parse_kml_defaults_witness:
  "parse_kml (\<lambda>file. Inr doc_named) (\<lambda>s. s) sample_float ''pontos.kml''
     = Inr ([\<lparr>pm_name = Some ''B'', pm_description = Some ''b'', pm_lat = 10, pm_lon = 20,
              pm_coords = ''20,10''\<rparr>,
             \<lparr>pm_name = Some ''Sem nome'', pm_description = Some [], pm_lat = 10,
              pm_lon = 10, pm_coords = ''10,10''\<rparr>], doc_named)
   \<and> find_Point_coordinates
       (Element (kml_ns ''Placemark'') None [Element (kml_ns ''name'') (Some ''A'') []]) = None
   \<and> parse_placemark (\<lambda>s. s) sample_float
       (Element (kml_ns ''Placemark'') None [Element (kml_ns ''name'') (Some ''A'') []])
       = Inr None"
  using parse_kml_defaults
    [where ET_parse = "\<lambda>file. Inr doc_named" and strip = "\<lambda>s. s"
       and py_float = sample_float and file_content = "''pontos.kml''"
       and doc_root = doc_named
       and placemarks = "[\<lparr>pm_name = Some ''B'', pm_description = Some ''b'', pm_lat = 10,
                            pm_lon = 20, pm_coords = ''20,10''\<rparr>,
                          \<lparr>pm_name = Some ''Sem nome'', pm_description = Some [],
                            pm_lat = 10, pm_lon = 10, pm_coords = ''10,10''\<rparr>]"]
  by (simp add: parse_kml_def findall_Placemark_def doc_named_def in_document_def
      point_of_def kml_ns_def parse_placemark_def find_Point_coordinates_def
      find_child_def sample_float_def)

text \<open>
  C10 (as stated, refuted). The coordinate text of the placemark splits into two
  fields, yet the placemark contributes no point: \<open>float\<close> rejects the first field,
  and the extraction as a whole fails with \<open>ValueError\<close>.
\<close>

theorem parse_kml_two_fields_counterexample:
  "has_point_fields (\<lambda>s. s) (Element (kml_ns ''Placemark'') None [point_of (Some ''a,b'')])
   \<and> parse_kml (\<lambda>file. Inr doc_not_numeric) (\<lambda>s. s) sample_float ''pontos.kml''
       = Inl ''ValueError''"
  by (simp add: parse_kml_def findall_Placemark_def doc_not_numeric_def in_document_def
      point_of_def kml_ns_def parse_placemark_def find_Point_coordinates_def
      find_child_def sample_float_def has_point_fields_def coords_text_of_def)

text \<open>
  C10 (amended). In every extraction that returns a result, a placemark whose
  coordinate text splits into fewer than two fields, like one without a coordinate
  text, adds no entry and raises nothing, and the placemarks with two or more fields
  give one entry each, in document order: its longitude is \<open>float\<close> of the first
  field, its latitude \<open>float\<close> of the second, further fields are not read, and its
  \<open>coords\<close> is the stripped text.
\<close>

theorem parse_kml_point_fields:
  assumes "parse_kml ET_parse strip py_float file_content = Inr (placemarks, doc_root)"
  shows "map (\<lambda>d. (Some (pm_coords d), Inr (pm_lon d), Inr (pm_lat d))) placemarks =
           map (\<lambda>p. (coords_text_of strip p,
                      py_float (split CHR '','' (the (coords_text_of strip p)) ! 0),
                      py_float (split CHR '','' (the (coords_text_of strip p)) ! 1)))
             (filter (has_point_fields strip) (findall_Placemark doc_root))
       \<and> (\<forall>p\<in>set (findall_Placemark doc_root).
            \<not> has_point_fields strip p \<longrightarrow> parse_placemark strip py_float p = Inr None)"
proof -
  note entries = parse_kml_Inr(3) [OF assms]
  note each = parse_kml_entries [OF assms]
  have fields: "map (\<lambda>d. (Some (pm_coords d), Inr (pm_lon d), Inr (pm_lat d))) placemarks =
           map (\<lambda>p. (coords_text_of strip p,
                      py_float (split CHR '','' (the (coords_text_of strip p)) ! 0),
                      py_float (split CHR '','' (the (coords_text_of strip p)) ! 1)))
             (filter (has_point_fields strip) (findall_Placemark doc_root))"
    unfolding entries map_map comp_def
  proof (rule map_cong [OF refl])
    fix p
    assume "p \<in> set (filter (has_point_fields strip) (findall_Placemark doc_root))"
    then have e: "parse_placemark strip py_float p
                    = Inr (Some (the (projr (parse_placemark strip py_float p))))"
      by (rule each)
    show "(Some (pm_coords (the (projr (parse_placemark strip py_float p)))),
           Inr (pm_lon (the (projr (parse_placemark strip py_float p)))),
           Inr (pm_lat (the (projr (parse_placemark strip py_float p)))))
          = (coords_text_of strip p,
             py_float (split CHR '','' (the (coords_text_of strip p)) ! 0),
             py_float (split CHR '','' (the (coords_text_of strip p)) ! 1))"
      using parse_placemark_Some(4) [OF e] parse_placemark_Some(5) [OF e]
        parse_placemark_Some(6) [OF e]
      by simp
  qed
  have skipped: "\<forall>p\<in>set (findall_Placemark doc_root).
            \<not> has_point_fields strip p \<longrightarrow> parse_placemark strip py_float p = Inr None"
    using parse_kml_Inr(2) [OF assms] by (simp add: entry_None)
  from fields skipped show ?thesis by simp
qed

theorem parse_kml_point_fields_witness:
  "parse_kml (\<lambda>file. Inr doc_altitude) (\<lambda>s. s) sample_float ''pontos.kml''
     = Inr ([\<lparr>pm_name = Some ''Sem nome'', pm_description = Some [], pm_lat = 20,
              pm_lon = 10, pm_coords = ''10,20,10''\<rparr>], doc_altitude)
   \<and> split CHR '','' ''10,20,10'' = [''10'', ''20'', ''10'']
   \<and> \<not> has_point_fields (\<lambda>s. s) (Element (kml_ns ''Placemark'') None [point_of (Some ''20'')])
   \<and> parse_placemark (\<lambda>s. s) sample_float
       (Element (kml_ns ''Placemark'') None [point_of (Some ''20'')]) = Inr None"
  using parse_kml_point_fields
    [where ET_parse = "\<lambda>file. Inr doc_altitude" and strip = "\<lambda>s. s"
       and py_float = sample_float and file_content = "''pontos.kml''"
       and doc_root = doc_altitude
       and placemarks = "[\<lparr>pm_name = Some ''Sem nome'', pm_description = Some [],
                            pm_lat = 20, pm_lon = 10, pm_coords = ''10,20,10''\<rparr>]"]
  by (simp add: parse_kml_def findall_Placemark_def doc_altitude_def in_document_def
      point_of_def kml_ns_def parse_placemark_def find_Point_coordinates_def
      find_child_def sample_float_def has_point_fields_def coords_text_of_def)

end
